theory Spec2Isabelle
  imports Complex_Main "HOL-Library.Monad_Syntax"
begin

section \<open>Numeric model\<close>

text \<open>
  The scripts compute with IEEE double-precision numbers (Python \<^verbatim>\<open>float\<close>,
  \<^verbatim>\<open>numpy.float64\<close>, \<^verbatim>\<open>numpy.complex128\<close>). Finite numbers are
  idealised here as \<^typ>\<open>real\<close> and \<^typ>\<open>complex\<close>: rounding, overflow, underflow
  and the sign of zero are not modelled. What is modelled is the way a computation
  leaves the finite numbers by an undefined operation (a division by zero, a logarithm
  of zero or of a negative real). The arguments are numpy scalars, as \<^verbatim>\<open>main\<close>
  passes them: such an operation does not raise, it yields \<^verbatim>\<open>inf\<close> or
  \<^verbatim>\<open>nan\<close> with a warning, and the operations that follow it in the formulas end in
  \<^verbatim>\<open>nan\<close> (the one exception, \<open>S0 = 0\<close>, is written out where it occurs).

  \<^item> Inside the characteristic function and the integrand, a value is an
    \<^typ>\<open>'a option\<close>; \<open>None\<close> stands for "some non-finite value".
  \<^item> A real result that is compared or combined afterwards (the number the
    integrator returns, the price, a CSV cell) is a \<open>pyfloat\<close>, which keeps
    \<^verbatim>\<open>+inf\<close>, \<^verbatim>\<open>-inf\<close> and \<^verbatim>\<open>nan\<close> apart.
\<close>

datatype pyfloat = Fin real | PInf | NInf | NaN

text \<open>IEEE comparison \<^verbatim>\<open>x < y\<close>: false as soon as one side is \<^verbatim>\<open>nan\<close>.\<close>

fun py_lt :: "pyfloat \<Rightarrow> pyfloat \<Rightarrow> bool" where
  "py_lt NaN _ = False"
| "py_lt _ NaN = False"
| "py_lt (Fin x) (Fin y) = (x < y)"
| "py_lt (Fin _) PInf = True"
| "py_lt (Fin _) NInf = False"
| "py_lt PInf _ = False"
| "py_lt NInf NInf = False"
| "py_lt NInf _ = True"

text \<open>IEEE addition and multiplication on the extended values.\<close>

fun py_add :: "pyfloat \<Rightarrow> pyfloat \<Rightarrow> pyfloat" where
  "py_add NaN _ = NaN"
| "py_add _ NaN = NaN"
| "py_add (Fin x) (Fin y) = Fin (x + y)"
| "py_add PInf NInf = NaN"
| "py_add NInf PInf = NaN"
| "py_add PInf _ = PInf"
| "py_add _ PInf = PInf"
| "py_add NInf _ = NInf"
| "py_add _ NInf = NInf"

fun py_mul :: "pyfloat \<Rightarrow> pyfloat \<Rightarrow> pyfloat" where
  "py_mul NaN _ = NaN"
| "py_mul _ NaN = NaN"
| "py_mul (Fin x) (Fin y) = Fin (x * y)"
| "py_mul (Fin x) PInf = (if x = 0 then NaN else if 0 < x then PInf else NInf)"
| "py_mul (Fin x) NInf = (if x = 0 then NaN else if 0 < x then NInf else PInf)"
| "py_mul PInf (Fin y) = (if y = 0 then NaN else if 0 < y then PInf else NInf)"
| "py_mul NInf (Fin y) = (if y = 0 then NaN else if 0 < y then NInf else PInf)"
| "py_mul PInf PInf = PInf"
| "py_mul PInf NInf = NInf"
| "py_mul NInf PInf = NInf"
| "py_mul NInf NInf = PInf"

text \<open>
  Operations that can leave the finite numbers. \<open>None\<close> is returned exactly where
  numpy returns \<^verbatim>\<open>inf\<close> or \<^verbatim>\<open>nan\<close> (with a RuntimeWarning).
\<close>

definition rdiv :: "real \<Rightarrow> real \<Rightarrow> real option" where
  "rdiv x y = (if y = 0 then None else Some (x / y))"

definition cdiv :: "complex \<Rightarrow> complex \<Rightarrow> complex option" where
  "cdiv x y = (if y = 0 then None else Some (x / y))"

text \<open>\<^verbatim>\<open>np.log\<close> on a real: \<^verbatim>\<open>-inf\<close> at zero, \<^verbatim>\<open>nan\<close> below.\<close>

definition rlog :: "real \<Rightarrow> real option" where
  "rlog x = (if x \<le> 0 then None else Some (ln x))"

text \<open>
  \<^verbatim>\<open>np.log\<close> on a complex number is the principal branch: the imaginary part is
  the argument in \<open>(-\<pi>, \<pi>]\<close>.
\<close>

definition principal_log :: "complex \<Rightarrow> complex" where
  "principal_log z = Complex (ln (cmod z)) (Arg z)"

definition clog :: "complex \<Rightarrow> complex option" where
  "clog z = (if z = 0 then None else Some (principal_log z))"

section \<open>The Heston characteristic function and the integrand (fourier.py)\<close>

text \<open>
  \<^verbatim>\<open>heston_char_function(u, t, S0, r, kappa, theta, sigma, rho, v0)\<close>. The
  source rebinds \<^verbatim>\<open>u = u - i\<close>; the shifted frequency is \<open>u'\<close> here. The
  products are associated as Python does, from the left. \<^verbatim>\<open>np.sqrt\<close> on a
  complex number is the principal square root \<^const>\<open>csqrt\<close>.

  For \<open>S0 = 0\<close>, \<^verbatim>\<open>np.log(S0)\<close> is \<^verbatim>\<open>-inf\<close> and the final exponential of a
  number with real part \<^verbatim>\<open>-inf\<close> is \<open>0\<close>; for \<open>S0 < 0\<close> it is \<^verbatim>\<open>nan\<close>.
\<close>

definition heston_char_function ::
  "real \<Rightarrow> real \<Rightarrow> real \<Rightarrow> real \<Rightarrow> real \<Rightarrow> real \<Rightarrow> real \<Rightarrow> real \<Rightarrow> real \<Rightarrow> complex option" where
  "heston_char_function u t S0 r kappa theta sigma rho v0 =
     (let i = \<i>;
          a = kappa * theta;
          u' = of_real u - i;
          d = csqrt ((of_real (rho * sigma) * i * u' - of_real kappa)\<^sup>2
                     + of_real (sigma\<^sup>2) * (i * u' + u'\<^sup>2))
      in do {
        g \<leftarrow> cdiv (of_real kappa - of_real (rho * sigma) * i * u' - d)
                  (of_real kappa - of_real (rho * sigma) * i * u' + d);
        a_s2 \<leftarrow> rdiv a (sigma\<^sup>2);
        q \<leftarrow> cdiv (1 - g * exp (- d * of_real t)) (1 - g);
        l \<leftarrow> clog q;
        let C = of_real r * i * u' * of_real t
                + of_real a_s2 * ((of_real kappa - of_real (rho * sigma) * i * u' - d) * of_real t
                                  - 2 * l);
        b_s2 \<leftarrow> cdiv (of_real kappa - of_real (rho * sigma) * i * u' - d) (of_real (sigma\<^sup>2));
        D \<leftarrow> cdiv (b_s2 * (1 - exp (- d * of_real t))) (1 - g * exp (- d * of_real t));
        if S0 < 0 then None
        else if S0 = 0 then Some 0
        else Some (exp (C + D * of_real v0 + i * u' * of_real (ln S0)))
      })"

text \<open>\<^verbatim>\<open>heston_integrand(u, S0, K, t, r, kappa, theta, sigma, rho, v0)\<close>.\<close>

definition heston_integrand ::
  "real \<Rightarrow> real \<Rightarrow> real \<Rightarrow> real \<Rightarrow> real \<Rightarrow> real \<Rightarrow> real \<Rightarrow> real \<Rightarrow> real \<Rightarrow> real \<Rightarrow> real option" where
  "heston_integrand u S0 K t r kappa theta sigma rho v0 =
     do {
       phi \<leftarrow> heston_char_function u t S0 r kappa theta sigma rho v0;
       log_K \<leftarrow> rlog K;
       let numerator = exp (- \<i> * of_real u * of_real log_K) * phi;
       integrand \<leftarrow> cdiv numerator (\<i> * of_real u);
       Some (Re integrand)
     }"

section \<open>The call price (fourier.py)\<close>

text \<open>
  \<^verbatim>\<open>scipy.integrate.quad\<close> is the external QUADPACK integrator; it is a
  parameter \<open>quad\<close> of the model, called as
  \<open>quad func a b limit epsabs epsrel\<close> and returning the pair
  \<^verbatim>\<open>(integral, error)\<close> of the estimate of the integral and the estimate of its
  absolute error.
\<close>

type_synonym quad_fn =
  "(real \<Rightarrow> real option) \<Rightarrow> real \<Rightarrow> real \<Rightarrow> nat \<Rightarrow> real \<Rightarrow> real \<Rightarrow> pyfloat \<times> pyfloat"

text \<open>The body of \<^verbatim>\<open>heston_call_price\<close> once the integrand is a function of \<open>u\<close>.\<close>

definition price_from_integrand :: "quad_fn \<Rightarrow> real \<Rightarrow> (real \<Rightarrow> real option) \<Rightarrow> pyfloat" where
  "price_from_integrand quad S0 integrand =
     (let (integral, error) = quad integrand 0 100 100 (1 / 10 ^ 8) (1 / 10 ^ 8);
          call_price = py_add (py_mul (Fin S0) (Fin 0.5)) (py_mul (Fin (1 / pi)) integral)
      in call_price)"

definition heston_call_price ::
  "quad_fn \<Rightarrow> real \<Rightarrow> real \<Rightarrow> real \<Rightarrow> real \<Rightarrow> real \<Rightarrow> real \<Rightarrow> real \<Rightarrow> real \<Rightarrow> real \<Rightarrow> pyfloat" where
  "heston_call_price quad S0 K t r kappa theta sigma rho v0 =
     (let integrand = (\<lambda>u. heston_integrand u S0 K t r kappa theta sigma rho v0)
      in price_from_integrand quad S0 integrand)"

section \<open>Parameter sampling (\<^verbatim>\<open>generate_lhs_samples\<close> in fourier.py)\<close>

text \<open>
  \<^verbatim>\<open>qmc.LatinHypercube(d=8).random(n)\<close> is scipy's sampler; it is a parameter
  \<open>random\<close> of the model, giving for \<open>n\<close> the rows of an \<open>n\<close> by 8 matrix.
  A row of draws and a row of scaled parameters are 8-tuples, in the column order of
  \<^verbatim>\<open>np.column_stack((m, tau, r, rho, kappa, theta, sigma, v0))\<close>.
\<close>

type_synonym row8 = "real \<times> real \<times> real \<times> real \<times> real \<times> real \<times> real \<times> real"

fun scale_row :: "row8 \<Rightarrow> row8" where
  "scale_row (x0, x1, x2, x3, x4, x5, x6, x7) =
     (let m_min = 0.6; m_max = 1.4;
          tau_min = 0.1; tau_max = 1.4;
          r_min = 0.0; r_max = 0.10;
          rho_min = - 0.95; rho_max = 0.0;
          kappa_min = 0.0; kappa_max = 2.0;
          theta_min = 0.0; theta_max = 0.5;
          sigma_min = 0.0; sigma_max = 0.5;
          v0_min = 0.05; v0_max = 0.5
      in (m_min + x0 * (m_max - m_min),
          tau_min + x1 * (tau_max - tau_min),
          r_min + x2 * (r_max - r_min),
          rho_min + x3 * (rho_max - rho_min),
          kappa_min + x4 * (kappa_max - kappa_min),
          theta_min + x5 * (theta_max - theta_min),
          sigma_min + x6 * (sigma_max - sigma_min),
          v0_min + x7 * (v0_max - v0_min)))"

definition generate_lhs_samples :: "(nat \<Rightarrow> row8 list) \<Rightarrow> nat \<Rightarrow> row8 list" where
  "generate_lhs_samples random samples = map scale_row (random samples)"



section \<open>The batch driver (\<^verbatim>\<open>main\<close> in fourier.py)\<close>

text \<open>
  The validity test \<^verbatim>\<open>0.0 < price < 0.66\<close> is Python's chained comparison: both
  comparisons must hold.
\<close>

definition accept :: "pyfloat \<Rightarrow> bool" where
  "accept price = (py_lt (Fin 0.0) price \<and> py_lt price (Fin 0.66))"

text \<open>
  One pass of the loop body up to the price. \<^verbatim>\<open>K = S0 / m\<close> is non-finite for
  \<open>m = 0\<close>; \<^verbatim>\<open>np.log(K)\<close> is then non-finite and so is the integrand at every
  frequency.
\<close>

fun sample_price :: "quad_fn \<Rightarrow> real \<Rightarrow> row8 \<Rightarrow> pyfloat" where
  "sample_price quad S0 (m, tau, r, rho, kappa, theta, sigma, v0) =
     (case rdiv S0 m of
        Some K \<Rightarrow> heston_call_price quad S0 K tau r kappa theta sigma rho v0
      | None \<Rightarrow> price_from_integrand quad S0 (\<lambda>u. None))"

text \<open>An accepted row \<^verbatim>\<open>[m, tau, r, rho, kappa, theta, sigma, v0, price]\<close>.\<close>

type_synonym result_row = "row8 \<times> pyfloat"

fun main_loop :: "quad_fn \<Rightarrow> real \<Rightarrow> row8 list \<Rightarrow> result_row list \<Rightarrow> result_row list" where
  "main_loop quad S0 [] result_data = result_data"
| "main_loop quad S0 (params # param_sets) result_data =
     (let price = sample_price quad S0 params
      in main_loop quad S0 param_sets
           (if accept price then result_data @ [(params, price)] else result_data))"

text \<open>The file written by \<^verbatim>\<open>save_to_csv\<close>: the header line, then one line per row.\<close>

definition save_to_csv :: "result_row list \<Rightarrow> string list \<times> result_row list" where
  "save_to_csv data =
     (let header = [''moneyness'', ''tau'', ''r'', ''rho'', ''kappa'', ''theta'', ''sigma'',
                    ''initial_variance'', ''option_price'']
      in (header, data))"

definition main :: "(nat \<Rightarrow> row8 list) \<Rightarrow> quad_fn \<Rightarrow> nat \<Rightarrow> string list \<times> result_row list" where
  "main random quad N =
     (let param_sets = generate_lhs_samples random N;
          S0 = 1.0;
          result_data = main_loop quad S0 param_sets []
      in save_to_csv result_data)"

section \<open>Calls of the pricing function in a running program\<close>




section \<open>Convergence of the integrator\<close>




section \<open>The chunked filter (filter.py)\<close>

text \<open>
  A row of the input table has the two numeric columns the script tests and any other
  columns. \<^verbatim>\<open>pd.read_csv(input_filename, chunksize=10000)\<close> is pandas' reader: the
  chunks it yields, in order, are the argument \<open>chunks\<close>, and the rows of the input file
  are \<open>concat chunks\<close>. Cells are values as pandas parsed them; the text of a cell is not
  modelled.
\<close>

record 'a csv_row =
  moneyness :: pyfloat
  initial_variance :: pyfloat
  other_columns :: 'a

datatype 'a csv_line = HeaderLine | DataLine "'a csv_row"

datatype write_mode = W | A

text \<open>\<^verbatim>\<open>df.to_csv(path, mode=..., header=..., index=False)\<close> on the file's lines.\<close>

definition to_csv ::
  "'a csv_row list \<Rightarrow> 'a csv_line list \<Rightarrow> write_mode \<Rightarrow> bool \<Rightarrow> 'a csv_line list" where
  "to_csv df file mode header =
     (case mode of W \<Rightarrow> [] | A \<Rightarrow> file) @ (if header then [HeaderLine] else [])
       @ map DataLine df"

definition py_gt :: "pyfloat \<Rightarrow> pyfloat \<Rightarrow> bool" where
  "py_gt x y = py_lt y x"

text \<open>The boolean mask of line 18, for one row.\<close>

definition row_filter :: "'a csv_row \<Rightarrow> bool" where
  "row_filter row =
     (py_gt (moneyness row) (Fin 0.6) \<and> py_lt (moneyness row) (Fin 1.4) \<and>
      py_gt (initial_variance row) (Fin 0.05) \<and> py_lt (initial_variance row) (Fin 0.5))"

record 'a script_state =
  header :: bool
  total_filtered :: nat
  output_file :: "'a csv_line list"

fun filter_loop :: "'a csv_row list list \<Rightarrow> 'a script_state \<Rightarrow> 'a script_state" where
  "filter_loop [] st = st"
| "filter_loop (chunk # chunks) st =
     (let filtered_chunk = filter row_filter chunk;
          file = to_csv filtered_chunk (output_file st)
                   (if \<not> header st then A else W) (header st)
      in filter_loop chunks
           \<lparr>header = False,
            total_filtered = total_filtered st + length filtered_chunk,
            output_file = file\<rparr>)"

text \<open>The script, started on whatever the output file held before.\<close>

definition filter_script :: "'a csv_row list list \<Rightarrow> 'a csv_line list \<Rightarrow> 'a script_state" where
  "filter_script chunks old_file =
     filter_loop chunks \<lparr>header = True, total_filtered = 0, output_file = old_file\<rparr>"

text \<open>The data rows of a file, and the bounds as inequalities between real numbers.\<close>

fun data_rows :: "'a csv_line list \<Rightarrow> 'a csv_row list" where
  "data_rows [] = []"
| "data_rows (HeaderLine # ls) = data_rows ls"
| "data_rows (DataLine row # ls) = row # data_rows ls"

definition strict_bounds :: "'a csv_row \<Rightarrow> bool" where
  "strict_bounds row =
     (case (moneyness row, initial_variance row) of
        (Fin m, Fin v) \<Rightarrow> 0.6 < m \<and> m < 1.4 \<and> 0.05 < v \<and> v < 0.5
      | _ \<Rightarrow> False)"

section \<open>Properties of the sampler\<close>




section \<open>Properties of the characteristic function and the integrand\<close>

lemma Arg_one: "Arg 1 = 0"
  by (rule cis_Arg_unique) simp_all

lemma principal_log_one: "principal_log 1 = 0"
  by (simp add: principal_log_def Arg_one complex_eq_iff)

text \<open>
  C1. For every real frequency \<open>u\<close> and all parameters with \<open>sigma > 0\<close> (and \<open>S0 > 0\<close>,
  which \<open>ln S0\<close> needs), the characteristic function shifts the frequency to
  \<open>u' = u - \<i>\<close>, takes \<open>d\<close> as the principal square root of
  \<open>(rho sigma \<i> u' - kappa)\<^sup>2 + sigma\<^sup>2 (\<i> u' + u'\<^sup>2)\<close>, \<open>g\<close> as the quotient of
  \<open>kappa - rho sigma \<i> u' - d\<close> by \<open>kappa - rho sigma \<i> u' + d\<close>, the term \<open>C\<close> with
  the principal logarithm of \<open>(1 - g e\<^sup>-\<^sup>d\<^sup>t) / (1 - g)\<close> and the term \<open>D\<close>, and returns
  exactly \<open>exp (C + D v0 + \<i> u' ln S0)\<close>. Where a denominator of the formula is zero
  the formula has no value and the function returns a non-finite number.
\<close>

theorem heston_char_function_formula:
  assumes "0 < sigma" and "0 < S0"
  shows "heston_char_function u t S0 r kappa theta sigma rho v0 =
     (let u' = of_real u - \<i>;
          b = of_real kappa - of_real (rho * sigma) * \<i> * u';
          d = csqrt ((of_real (rho * sigma) * \<i> * u' - of_real kappa)\<^sup>2
                     + of_real (sigma\<^sup>2) * (\<i> * u' + u'\<^sup>2));
          g = (b - d) / (b + d);
          E = exp (- d * of_real t);
          C = of_real r * \<i> * u' * of_real t
              + of_real (kappa * theta / sigma\<^sup>2)
                * ((b - d) * of_real t - 2 * principal_log ((1 - g * E) / (1 - g)));
          D = (b - d) / of_real (sigma\<^sup>2) * ((1 - E) / (1 - g * E))
      in if b + d = 0 \<or> 1 - g = 0 \<or> 1 - g * E = 0 then None
         else Some (exp (C + D * of_real v0 + \<i> * u' * of_real (ln S0))))"
  using assms
  by (simp add: heston_char_function_def Let_def cdiv_def rdiv_def clog_def)

text \<open>
  At \<open>u = 0\<close>, \<open>t = 1\<close>, \<open>S0 = 1\<close>, \<open>r = 0\<close>, \<open>kappa = theta = sigma = v0 = 1\<close>, \<open>rho = 0\<close>
  the formula gives \<open>d = 1\<close>, \<open>g = 0\<close>, \<open>C = D = 0\<close> and the value \<open>1\<close>.
\<close>

theorem heston_char_function_formula_witness:
  "0 < (1::real) \<and> heston_char_function 0 1 1 0 1 1 1 0 1 = Some 1"
  using heston_char_function_formula [of 1 1 0 1 0 1 1 0 1]
  by (simp add: Let_def principal_log_one power2_eq_square)

text \<open>
  A check of the formula against the model it comes from: at \<open>u = 0\<close> the shifted
  frequency is \<open>-\<i>\<close> and the characteristic function is the forward price
  \<open>S0 e\<^sup>r\<^sup>t\<close>, whatever the variance parameters are.
\<close>

lemma heston_char_function_at_zero:
  assumes "0 < sigma" and "0 < S0" and "rho * sigma < kappa"
  shows "heston_char_function 0 t S0 r kappa theta sigma rho v0 =
         Some (of_real (S0 * exp (r * t)))"
proof -
  define b :: complex where "b = of_real (kappa - rho * sigma)"
  have u': "\<i> * (of_real 0 - \<i>) = 1" "(of_real 0 - \<i>)\<^sup>2 = - 1"
    by (simp_all add: power2_eq_square)
  have b1: "of_real kappa - of_real (rho * sigma) * \<i> * (of_real 0 - \<i>) = b"
    by (simp add: b_def mult.assoc)
  have b2: "of_real (rho * sigma) * \<i> * (of_real 0 - \<i>) - of_real kappa = - b"
    by (simp add: b_def mult.assoc)
  have "csqrt (b\<^sup>2) = b"
    unfolding b_def using assms(3)
    by (metis csqrt_of_real_nonneg Im_complex_of_real Re_complex_of_real
        less_eq_real_def of_real_power real_sqrt_abs abs_of_nonneg diff_ge_0_iff_ge zero_le_power2)
  then have d: "csqrt ((- b)\<^sup>2 + of_real (sigma\<^sup>2) * (1 + - 1)) = b"
    by simp
  have "kappa - rho * sigma \<noteq> 0"
    using assms(3) by simp
  then have "b \<noteq> 0"
    unfolding b_def by (simp only: of_real_eq_0_iff not_False_eq_True)
  then have bnz: "b + b \<noteq> 0" "b \<noteq> 0"
    by simp_all
  have s: "(of_real (sigma\<^sup>2) :: complex) \<noteq> 0" "sigma\<^sup>2 \<noteq> 0"
    using assms(1) by simp_all
  have "heston_char_function 0 t S0 r kappa theta sigma rho v0 =
        Some (exp (of_real r * of_real t + of_real (ln S0)))"
    unfolding heston_char_function_def Let_def b1 b2 u' d
    using assms(2) bnz s
    by (simp add: cdiv_def rdiv_def clog_def principal_log_one mult.assoc u')
  moreover have "exp (of_real r * of_real t + of_real (ln S0)) =
      (of_real (S0 * exp (r * t)) :: complex)"
  proof -
    have "exp (r * t + ln S0) = S0 * exp (r * t)"
      using assms(2) by (simp add: exp_add)
    then have "(of_real (exp (r * t + ln S0)) :: complex) = of_real (S0 * exp (r * t))"
      by (simp only:)
    moreover have "exp (of_real r * of_real t + of_real (ln S0)) =
        (of_real (exp (r * t + ln S0)) :: complex)"
      by (simp add: exp_of_real [symmetric])
    ultimately show ?thesis
      by (simp only:)
  qed
  ultimately show ?thesis
    by (simp only:)
qed

text \<open>
  C4. For every nonzero real frequency \<open>u\<close> and every strike \<open>K > 0\<close>, the integrand is
  the real part of \<open>(e\<^sup>-\<^sup>i\<^sup>u\<^sup>l\<^sup>n\<^sup>K \<phi>(u)) / (\<i> u)\<close>, where \<open>\<phi>(u)\<close> is the characteristic
  function at the same parameters (and is non-finite where \<open>\<phi>(u)\<close> is).
\<close>

theorem heston_integrand_formula:
  assumes "u \<noteq> 0" and "0 < K"
  shows "heston_integrand u S0 K t r kappa theta sigma rho v0 =
     map_option
       (\<lambda>phi. Re ((exp (- \<i> * of_real u * of_real (ln K)) * phi) / (\<i> * of_real u)))
       (heston_char_function u t S0 r kappa theta sigma rho v0)"
  using assms
  by (cases "heston_char_function u t S0 r kappa theta sigma rho v0")
     (simp_all add: heston_integrand_def rlog_def cdiv_def)

theorem heston_integrand_formula_witness:
  "(1::real) \<noteq> 0 \<and> (0::real) < 1 \<and>
   heston_integrand 1 1 1 1 0 1 1 1 0 1 =
     map_option
       (\<lambda>phi. Re ((exp (- \<i> * of_real 1 * of_real (ln 1)) * phi) / (\<i> * of_real 1)))
       (heston_char_function 1 1 1 0 1 1 1 0 1)"
  using heston_integrand_formula [of 1 1 1 1 0 1 1 1 0 1]
  by simp

text \<open>The formula divides by \<open>\<i> u\<close>: at \<open>u = 0\<close> the integrand is not finite.\<close>

lemma heston_integrand_at_zero:
  "heston_integrand 0 S0 K t r kappa theta sigma rho v0 = None"
  by (cases "heston_char_function 0 t S0 r kappa theta sigma rho v0"; cases "rlog K")
     (simp_all add: heston_integrand_def cdiv_def)

text \<open>
  C6. With \<open>sigma = 0\<close> the price should agree with the Black-Scholes price. The code
  divides by \<open>sigma\<^sup>2\<close>: the characteristic function and the integrand are non-finite at
  every frequency, whatever the other parameters are, and the integrator is handed the
  same everywhere non-finite integrand for every strike and maturity.
\<close>

theorem heston_integrand_sigma_zero:
  "heston_char_function u t S0 r kappa theta 0 rho v0 = None \<and>
   heston_integrand u S0 K t r kappa theta 0 rho v0 = None \<and>
   heston_call_price quad S0 K t r kappa theta 0 rho v0 = price_from_integrand quad S0 (\<lambda>u. None)"
  by (simp add: heston_call_price_def heston_integrand_def heston_char_function_def
      Let_def rdiv_def)

section \<open>Properties of the call price\<close>

text \<open>
  C2. The call price is computed from one call of the integrator on the pricing
  integrand, over \<open>(0, 100)\<close>, with the subdivision limit \<open>100\<close> and both tolerances
  \<open>10\<^sup>-\<^sup>8\<close>; it is \<open>0.5 S0 + (1 / \<pi>) integral\<close> for the returned estimate \<open>integral\<close>,
  and a non-finite estimate is passed on.
\<close>

theorem heston_call_price_formula:
  "heston_call_price quad S0 K t r kappa theta sigma rho v0 =
     (case fst (quad (\<lambda>u. heston_integrand u S0 K t r kappa theta sigma rho v0)
                  0 100 100 (1 / 10 ^ 8) (1 / 10 ^ 8)) of
        Fin integral \<Rightarrow> Fin (0.5 * S0 + (1 / pi) * integral)
      | PInf \<Rightarrow> PInf
      | NInf \<Rightarrow> NInf
      | NaN \<Rightarrow> NaN)"
  by (simp add: heston_call_price_def price_from_integrand_def split_beta split: pyfloat.split)




section \<open>Properties of the batch driver\<close>

lemma accept_iff: "accept price = (case price of Fin x \<Rightarrow> 0 < x \<and> x < 0.66 | _ \<Rightarrow> False)"
  by (cases price) (simp_all add: accept_def)

lemma main_loop_filter:
  "main_loop quad S0 param_sets result_data =
     result_data @ map (\<lambda>p. (p, sample_price quad S0 p))
                       (filter (\<lambda>p. accept (sample_price quad S0 p)) param_sets)"
  by (induction param_sets arbitrary: result_data) (simp_all add: Let_def)

text \<open>
  C3. A price is accepted if and only if it is a finite number strictly between \<open>0\<close>
  and \<open>0.66\<close>; the prices \<open>0\<close>, \<open>0.66\<close>, \<^verbatim>\<open>nan\<close>, \<^verbatim>\<open>+inf\<close> and \<^verbatim>\<open>-inf\<close> are
  rejected. The rows saved by a run are exactly the sampled parameter sets whose price
  is accepted, each with its price, in the order of sampling: a rejected sample is
  dropped, no sample is priced again, and the samples after it are still processed.
\<close>

theorem validity_filter:
  "accept price = (case price of Fin x \<Rightarrow> 0 < x \<and> x < 0.66 | _ \<Rightarrow> False) \<and>
   \<not> accept (Fin 0) \<and> \<not> accept (Fin 0.66) \<and>
   \<not> accept NaN \<and> \<not> accept PInf \<and> \<not> accept NInf \<and>
   snd (main random quad N) =
     map (\<lambda>p. (p, sample_price quad 1 p))
         (filter (\<lambda>p. accept (sample_price quad 1 p)) (generate_lhs_samples random N))"
proof -
  have boundary: "\<not> accept (Fin 0) \<and> \<not> accept (Fin 0.66) \<and>
      \<not> accept NaN \<and> \<not> accept PInf \<and> \<not> accept NInf"
    by (simp add: accept_def)
  have saved: "snd (main random quad N) =
      map (\<lambda>p. (p, sample_price quad 1 p))
          (filter (\<lambda>p. accept (sample_price quad 1 p)) (generate_lhs_samples random N))"
    by (simp add: main_def save_to_csv_def main_loop_filter)
  show ?thesis
    using accept_iff [of price] boundary saved by (intro conjI) simp_all
qed

section \<open>Statelessness of the pricing function\<close>







section \<open>Properties of the chunked filter\<close>

lemma row_filter_iff: "row_filter row = strict_bounds row"
  by (cases "moneyness row"; cases "initial_variance row")
     (simp_all add: row_filter_def strict_bounds_def py_gt_def)

lemma row_filter_eq: "row_filter = strict_bounds"
  by (rule ext) (rule row_filter_iff)

lemma data_rows_DataLine: "data_rows (map DataLine rows) = rows"
  by (induction rows) simp_all

lemma filter_loop_appending:
  "\<not> header st \<Longrightarrow>
   filter_loop chunks st =
     \<lparr>header = False,
      total_filtered = total_filtered st + length (filter row_filter (concat chunks)),
      output_file = output_file st @ map DataLine (filter row_filter (concat chunks))\<rparr>"
  by (induction chunks arbitrary: st) (simp_all add: Let_def to_csv_def)

lemma filter_script_result:
  "filter_script chunks old_file =
     (if chunks = [] then \<lparr>header = True, total_filtered = 0, output_file = old_file\<rparr>
      else \<lparr>header = False,
            total_filtered = length (filter row_filter (concat chunks)),
            output_file = HeaderLine # map DataLine (filter row_filter (concat chunks))\<rparr>)"
  by (cases chunks) (simp_all add: filter_script_def Let_def to_csv_def filter_loop_appending)

text \<open>
  C10. Whatever the output file held before and however the reader cuts the input into
  chunks: the reported total is the number of input rows within the strict bounds
  \<open>0.6 < moneyness < 1.4\<close> and \<open>0.05 < initial_variance < 0.5\<close>; once a chunk has been
  read, the output file is the header followed by exactly those rows, unchanged and in
  their input order, so every row in it satisfies the bounds and their number is the
  reported total; with no chunk at all nothing is written.
\<close>

theorem filter_script_correct:
  "total_filtered (filter_script chunks old_file) =
     length (filter strict_bounds (concat chunks)) \<and>
   (chunks \<noteq> [] \<longrightarrow>
      output_file (filter_script chunks old_file) =
        HeaderLine # map DataLine (filter strict_bounds (concat chunks)) \<and>
      data_rows (output_file (filter_script chunks old_file)) =
        filter strict_bounds (concat chunks) \<and>
      list_all strict_bounds (data_rows (output_file (filter_script chunks old_file))) \<and>
      total_filtered (filter_script chunks old_file) =
        length (data_rows (output_file (filter_script chunks old_file)))) \<and>
   (chunks = [] \<longrightarrow> output_file (filter_script chunks old_file) = old_file)"
  by (simp add: filter_script_result data_rows_DataLine row_filter_eq list_all_iff)

text \<open>
  Two chunks of two rows over a stale output file: a row on the bound \<open>0.6\<close> and a row
  with a \<^verbatim>\<open>nan\<close> cell are dropped.
\<close>

theorem filter_script_correct_witness:
  "[[\<lparr>moneyness = Fin 1, initial_variance = Fin 0.1, other_columns = (1::nat)\<rparr>,
     \<lparr>moneyness = Fin 0.6, initial_variance = Fin 0.1, other_columns = 2\<rparr>],
    [\<lparr>moneyness = NaN, initial_variance = Fin 0.1, other_columns = 3\<rparr>,
     \<lparr>moneyness = Fin 1.2, initial_variance = Fin 0.3, other_columns = 4\<rparr>]] \<noteq> [] \<and>
   total_filtered (filter_script
     [[\<lparr>moneyness = Fin 1, initial_variance = Fin 0.1, other_columns = (1::nat)\<rparr>,
       \<lparr>moneyness = Fin 0.6, initial_variance = Fin 0.1, other_columns = 2\<rparr>],
      [\<lparr>moneyness = NaN, initial_variance = Fin 0.1, other_columns = 3\<rparr>,
       \<lparr>moneyness = Fin 1.2, initial_variance = Fin 0.3, other_columns = 4\<rparr>]]
     [DataLine \<lparr>moneyness = Fin 2, initial_variance = Fin 2, other_columns = 0\<rparr>]) = 2 \<and>
   output_file (filter_script
     [[\<lparr>moneyness = Fin 1, initial_variance = Fin 0.1, other_columns = (1::nat)\<rparr>,
       \<lparr>moneyness = Fin 0.6, initial_variance = Fin 0.1, other_columns = 2\<rparr>],
      [\<lparr>moneyness = NaN, initial_variance = Fin 0.1, other_columns = 3\<rparr>,
       \<lparr>moneyness = Fin 1.2, initial_variance = Fin 0.3, other_columns = 4\<rparr>]]
     [DataLine \<lparr>moneyness = Fin 2, initial_variance = Fin 2, other_columns = 0\<rparr>]) =
   [HeaderLine,
    DataLine \<lparr>moneyness = Fin 1, initial_variance = Fin 0.1, other_columns = 1\<rparr>,
    DataLine \<lparr>moneyness = Fin 1.2, initial_variance = Fin 0.3, other_columns = 4\<rparr>]"
  using filter_script_correct
    [of "[[\<lparr>moneyness = Fin 1, initial_variance = Fin 0.1, other_columns = (1::nat)\<rparr>,
           \<lparr>moneyness = Fin 0.6, initial_variance = Fin 0.1, other_columns = 2\<rparr>],
          [\<lparr>moneyness = NaN, initial_variance = Fin 0.1, other_columns = 3\<rparr>,
           \<lparr>moneyness = Fin 1.2, initial_variance = Fin 0.3, other_columns = 4\<rparr>]]"
        "[DataLine \<lparr>moneyness = Fin 2, initial_variance = Fin 2, other_columns = 0\<rparr>]"]
  by (simp add: strict_bounds_def)

end
